theory Spec2Isabelle
  imports Main
begin

section \<open>Python values used by the program\<close>

text \<open>
  The exceptions the program can raise. \<open>ValueError\<close> carries its message, because
  \<open>main\<close> prints it. \<open>IllegalMonthError\<close> is what \<open>calendar.monthrange\<close> raises,
  \<open>IndexError\<close> what \<open>calendar.month_name[month]\<close> raises, \<open>AttributeError\<close> what
  an attribute access on \<open>None\<close> raises. \<open>OSError\<close> stands for a failing file
  operation and \<open>RequestException\<close> for a failure of the HTTP transport.
\<close>

datatype error =
    ValueError string
  | IllegalMonthError
  | IndexError
  | AttributeError
  | OSError
  | RequestException

subsection \<open>Integers as text\<close>

definition digit_char :: "nat \<Rightarrow> char" where
  "digit_char d = char_of (48 + d)"

function str_nat :: "nat \<Rightarrow> string" where
  "str_nat n = (if n < 10 then [digit_char n] else str_nat (n div 10) @ [digit_char (n mod 10)])"
  by pat_completeness auto
termination
  by (relation "measure (\<lambda>n. n)") auto

declare str_nat.simps [simp del]

text \<open>\<open>str(i)\<close> for a Python integer.\<close>

definition str_int :: "int \<Rightarrow> string" where
  "str_int i = (if i < 0 then CHR ''-'' # str_nat (nat (- i)) else str_nat (nat i))"

text \<open>
  The format specification \<open>02\<close> of an f-string, and the two-digit fields of
  \<open>strftime\<close>: zeros are put in front until the text is two characters wide.
\<close>

definition pad2 :: "int \<Rightarrow> string" where
  "pad2 i = (let s = str_int i in if length s < 2 then CHR ''0'' # s else s)"

subsection \<open>The calendar module\<close>

definition month_names :: "string list" where
  "month_names = ['''', ''January'', ''February'', ''March'', ''April'', ''May'', ''June'',
     ''July'', ''August'', ''September'', ''October'', ''November'', ''December'']"

text \<open>
  \<open>calendar.month_name[month]\<close>: an index into a list of thirteen names, the first
  one empty. A negative index counts from the end, and an index out of range raises.
\<close>

definition month_name :: "int \<Rightarrow> error + string" where
  "month_name month =
     (let n = int (length month_names); j = (if month < 0 then n + month else month)
      in if 0 \<le> j \<and> j < n then Inr (month_names ! nat j) else Inl IndexError)"

definition isleap :: "int \<Rightarrow> bool" where
  "isleap year = (year mod 4 = 0 \<and> (year mod 100 \<noteq> 0 \<or> year mod 400 = 0))"

definition mdays :: "int list" where
  "mdays = [0, 31, 28, 31, 30, 31, 30, 31, 31, 30, 31, 30, 31]"

text \<open>
  The second component of \<open>calendar.monthrange(year, month)\<close>: the number of days
  of the month. The function raises for a month outside 1..12.
\<close>

definition monthrange_days :: "int \<Rightarrow> int \<Rightarrow> error + int" where
  "monthrange_days year month =
     (if \<not> (1 \<le> month \<and> month \<le> 12) then Inl IllegalMonthError
      else Inr (mdays ! nat month + (if month = 2 \<and> isleap year then 1 else 0)))"

text \<open>\<open>str.capitalize\<close> on ASCII text: first character upper case, the rest lower case.\<close>

definition upper_char :: "char \<Rightarrow> char" where
  "upper_char c = (let k = (of_char c :: nat) in if 97 \<le> k \<and> k \<le> 122 then char_of (k - 32) else c)"

definition lower_char :: "char \<Rightarrow> char" where
  "lower_char c = (let k = (of_char c :: nat) in if 65 \<le> k \<and> k \<le> 90 then char_of (k + 32) else c)"

definition capitalize :: "string \<Rightarrow> string" where
  "capitalize s = (case s of [] \<Rightarrow> [] | c # cs \<Rightarrow> upper_char c # map lower_char cs)"

section \<open>Tables, files and the remote site\<close>

text \<open>
  A data frame is the list of its rows. A row keeps the cells that came from the web page
  and the value of the column \<open>month_year\<close>, which is absent until the program
  assigns it. \<open>len(data_table)\<close> is the length of the list.
\<close>

record date =
  d_year :: int
  d_month :: int
  d_day :: int

record row =
  cells :: "string list"
  month_year :: "date option"

type_synonym table = "row list"

text \<open>
  The answer of the site to one POST request: its status code and the tables that
  \<open>pd.read_html\<close> finds in its text. \<open>pd.read_html\<close> raises \<open>ValueError\<close> when it
  finds none.
\<close>

record response =
  status_code :: int
  html_tables :: "table list"

type_synonym payload = "string \<times> string"

text \<open>
  The site maps the form fields \<open>select_month\<close> and \<open>select_year\<close> to a response, or
  the transport fails with an exception.
\<close>

type_synonym site = "payload \<Rightarrow> error + response"

definition pd_read_html :: "response \<Rightarrow> error + table list" where
  "pd_read_html r = (if html_tables r = [] then Inl (ValueError ''No tables found'') else Inr (html_tables r))"

text \<open>
  The state the program changes: the Parquet files by path, the directories, and the
  log of the POST requests sent so far. A raised exception leaves the state as it was
  at the raise, so every operation returns the state beside its result. The text the
  program prints on the way is not part of the state; where the arguments of a
  \<open>print\<close> can raise, the raise is modelled.
  Reading a Parquet file gives back the table that was written to it. Parent directories
  are not checked: every path the program writes lies in the working directory or in
  \<open>DATA_FOLDER\<close>, which \<open>main\<close> creates first.
\<close>

record world =
  files :: "string \<rightharpoonup> table"
  dirs :: "string set"
  posts :: "payload list"

definition os_path_exists :: "world \<Rightarrow> string \<Rightarrow> bool" where
  "os_path_exists w p = (files w p \<noteq> None \<or> p \<in> dirs w)"

definition os_makedirs :: "world \<Rightarrow> string \<Rightarrow> world" where
  "os_makedirs w p = w\<lparr>dirs := insert p (dirs w)\<rparr>"

definition os_path_join :: "string \<Rightarrow> string \<Rightarrow> string" where
  "os_path_join a b = a @ ''/'' @ b"

definition read_parquet :: "world \<Rightarrow> string \<Rightarrow> error + table" where
  "read_parquet w p = (case files w p of None \<Rightarrow> Inl OSError | Some t \<Rightarrow> Inr t)"

definition to_parquet :: "world \<Rightarrow> string \<Rightarrow> table \<Rightarrow> (error + unit) \<times> world" where
  "to_parquet w p t =
     (if p \<in> dirs w then (Inl OSError, w)
      else (Inr (), w\<lparr>files := (files w)(p \<mapsto> t)\<rparr>))"

definition requests_post :: "site \<Rightarrow> world \<Rightarrow> payload \<Rightarrow> (error + response) \<times> world" where
  "requests_post srv w pl = (srv pl, w\<lparr>posts := posts w @ [pl]\<rparr>)"

section \<open>The program\<close>

definition DATA_FOLDER :: string where
  "DATA_FOLDER = ''bd_bank_historical_interest_rate_data''"

subsection \<open>\<open>get_data_table\<close>\<close>

text \<open>
  The assignment \<open>data_table[('month_year', 'month_year')] = date_column\<close> gives every
  row the same date.
\<close>

definition set_month_year :: "date \<Rightarrow> table \<Rightarrow> table" where
  "set_month_year d t = map (\<lambda>r. r\<lparr>month_year := Some d\<rparr>) t"

text \<open>
  The month name and the last day are computed before the request is sent, so a month
  outside the calendar raises without any request. On status 200 the first table of the
  page is returned with its date column; on any other status the result is \<open>None\<close>.
\<close>

definition get_data_table :: "site \<Rightarrow> world \<Rightarrow> int \<Rightarrow> int \<Rightarrow> (error + table option) \<times> world" where
  "get_data_table srv w month year =
     (case month_name month of
        Inl e \<Rightarrow> (Inl e, w)
      | Inr nm \<Rightarrow>
          let mname = capitalize nm in
          (case monthrange_days year month of
             Inl e \<Rightarrow> (Inl e, w)
           | Inr last_day \<Rightarrow>
               (case requests_post srv w (mname, str_int year) of
                  (Inl e, w') \<Rightarrow> (Inl e, w')
                | (Inr resp, w') \<Rightarrow>
                    if status_code resp = 200 then
                      (case pd_read_html resp of
                         Inl e \<Rightarrow> (Inl e, w')
                       | Inr data_tables \<Rightarrow>
                           (Inr (Some (set_month_year
                              \<lparr>d_year = year, d_month = month, d_day = last_day\<rparr> (hd data_tables))), w'))
                    else (Inr None, w'))))"

subsection \<open>\<open>load_or_fetch_data\<close>\<close>

definition cache_path :: "int \<Rightarrow> int \<Rightarrow> string" where
  "cache_path month year = os_path_join DATA_FOLDER (str_int month @ ''_'' @ str_int year @ ''.parquet'')"

text \<open>
  On a cache hit the message that is printed names the month, so \<open>calendar.month_name\<close>
  is evaluated (and can raise) before the file is read.
\<close>

definition load_or_fetch_data :: "site \<Rightarrow> world \<Rightarrow> int \<Rightarrow> int \<Rightarrow> (error + table option) \<times> world" where
  "load_or_fetch_data srv w month year =
     (let file_path = cache_path month year in
      if os_path_exists w file_path then
        (case month_name month of
           Inl e \<Rightarrow> (Inl e, w)
         | Inr _ \<Rightarrow>
             (case read_parquet w file_path of
                Inl e \<Rightarrow> (Inl e, w)
              | Inr t \<Rightarrow> (Inr (Some t), w)))
      else
        (case get_data_table srv w month year of
           (Inl e, w') \<Rightarrow> (Inl e, w')
         | (Inr None, w') \<Rightarrow> (Inr None, w')
         | (Inr (Some data_table), w') \<Rightarrow>
             (case to_parquet w' file_path data_table of
                (Inl e, w'') \<Rightarrow> (Inl e, w'')
              | (Inr _, w'') \<Rightarrow> (Inr (Some data_table), w''))))"

subsection \<open>\<open>create_fetch_list\<close>\<close>

text \<open>
  A reading of the clock, \<open>datetime.now(timezone.utc)\<close>. The planner reads the clock
  twice, once for the year and once for the month, so it takes both readings.
\<close>

record datetime =
  dt_year :: int
  dt_month :: int
  dt_day :: int
  dt_hour :: int
  dt_minute :: int
  dt_second :: int

text \<open>The months appended for one year by the inner loop.\<close>

definition months_of_year :: "int \<Rightarrow> int \<Rightarrow> int \<Rightarrow> (int \<times> int) list" where
  "months_of_year current_year current_month year =
     (let max_month = (if year < current_year then 12 else current_month)
      in map (\<lambda>month. (month, year)) [1..max_month])"

text \<open>The condition of the final list comprehension.\<close>

definition not_beyond :: "int \<Rightarrow> int \<Rightarrow> int \<times> int \<Rightarrow> bool" where
  "not_beyond current_year current_month e =
     (case e of (month, year) \<Rightarrow>
        year < current_year \<or> (year = current_year \<and> month \<le> current_month))"

definition create_fetch_list :: "datetime \<Rightarrow> datetime \<Rightarrow> int \<Rightarrow> int \<Rightarrow> error + (int \<times> int) list" where
  "create_fetch_list now1 now2 start_year end_year =
     (if end_year < start_year then Inl (ValueError ''End year cannot be smaller than start year.'')
      else
        let current_year = dt_year now1;
            current_month = dt_month now2;
            fetch_list = concat (map (months_of_year current_year current_month) [start_year..end_year])
        in Inr (filter (not_beyond current_year current_month) fetch_list))"

subsection \<open>\<open>get_data_for_months\<close>\<close>

text \<open>The three variables of the aggregation loop.\<close>

record agg =
  all_tables :: "table list"
  consecutive_zero_rows :: int
  consecutive_zero_months :: "string list"

datatype ctl = Continue | Break

text \<open>
  \<open>data_table.shape\<close>, evaluated for the message printed right after the resolve:
  \<open>None\<close> has no such attribute. Only the row count of the shape is kept.
\<close>

definition shape :: "table option \<Rightarrow> error + nat" where
  "shape data_table = (case data_table of None \<Rightarrow> Inl AttributeError | Some t \<Rightarrow> Inr (length t))"

text \<open>
  One iteration of the loop. The label of an empty month uses \<open>calendar.month_name\<close>,
  after the counter has been incremented.
\<close>

definition loop_body :: "site \<Rightarrow> world \<Rightarrow> agg \<Rightarrow> int \<times> int \<Rightarrow> (error + ctl \<times> agg) \<times> world" where
  "loop_body srv w s e =
     (case e of (month, year) \<Rightarrow>
        (case load_or_fetch_data srv w month year of
           (Inl err, w') \<Rightarrow> (Inl err, w')
         | (Inr data_table, w') \<Rightarrow>
             (case shape data_table of
                Inl err \<Rightarrow> (Inl err, w')
              | Inr _ \<Rightarrow>
                  (case data_table of
                     None \<Rightarrow> (Inr (Continue, s), w')
                   | Some t \<Rightarrow>
                       if length t > 0 then
                         (Inr (Continue, s\<lparr>all_tables := all_tables s @ [t],
                                           consecutive_zero_rows := 0,
                                           consecutive_zero_months := []\<rparr>), w')
                       else
                         (case month_name month of
                            Inl err \<Rightarrow> (Inl err, w')
                          | Inr nm \<Rightarrow>
                              let s' = s\<lparr>consecutive_zero_rows := consecutive_zero_rows s + 1,
                                         consecutive_zero_months :=
                                           consecutive_zero_months s @ [nm @ '', '' @ str_int year]\<rparr>
                              in if consecutive_zero_rows s' = 5 then (Inr (Break, s'), w')
                                 else (Inr (Continue, s'), w'))))))"

text \<open>
  The loop over the entries in the order given: an exception or a \<open>break\<close> ends it,
  and the entries after that are not looked at.
\<close>

fun for_loop :: "site \<Rightarrow> world \<Rightarrow> agg \<Rightarrow> (int \<times> int) list \<Rightarrow> (error + ctl \<times> agg) \<times> world" where
  "for_loop srv w s [] = (Inr (Continue, s), w)"
| "for_loop srv w s (e # es) =
     (case loop_body srv w s e of
        (Inl err, w') \<Rightarrow> (Inl err, w')
      | (Inr (Break, s'), w') \<Rightarrow> (Inr (Break, s'), w')
      | (Inr (Continue, s'), w') \<Rightarrow> for_loop srv w' s' es)"

text \<open>\<open>pd.concat(tables, ignore_index=True)\<close> raises on an empty list.\<close>

definition pd_concat :: "table list \<Rightarrow> error + table" where
  "pd_concat ts = (if ts = [] then Inl (ValueError ''No objects to concatenate'') else Inr (concat ts))"

definition agg_init :: agg where
  "agg_init = \<lparr>all_tables = [], consecutive_zero_rows = 0, consecutive_zero_months = []\<rparr>"

definition get_data_for_months :: "site \<Rightarrow> world \<Rightarrow> (int \<times> int) list \<Rightarrow> (error + table) \<times> world" where
  "get_data_for_months srv w fetch_list =
     (case for_loop srv w agg_init (rev fetch_list) of
        (Inl err, w') \<Rightarrow> (Inl err, w')
      | (Inr (_, s), w') \<Rightarrow> (pd_concat (all_tables s), w'))"

subsection \<open>\<open>main\<close>\<close>

text \<open>
  \<open>s.split(sep)[0]\<close> for a separator that is not empty: the text before the first
  occurrence of the separator, or all of \<open>s\<close> when there is none.
\<close>

fun split_head :: "string \<Rightarrow> string \<Rightarrow> string" where
  "split_head sep [] = []"
| "split_head sep (c # cs) =
     (if take (length sep) (c # cs) = sep then [] else c # split_head sep cs)"

text \<open>\<open>strftime("_%Y-%m-%d_%H-%M-%S_GMT")\<close>, for a year of four digits.\<close>

definition strftime_suffix :: "datetime \<Rightarrow> string" where
  "strftime_suffix t =
     ''_'' @ str_int (dt_year t) @ ''-'' @ pad2 (dt_month t) @ ''-'' @ pad2 (dt_day t)
       @ ''_'' @ pad2 (dt_hour t) @ ''-'' @ pad2 (dt_minute t) @ ''-'' @ pad2 (dt_second t) @ ''_GMT''"

definition file_name_combined :: string where
  "file_name_combined = ''historic_rate_data_bd_banks_combined.parquet''"

definition timestamped_name :: "datetime \<Rightarrow> string" where
  "timestamped_name t = split_head ''.parquet'' file_name_combined @ strftime_suffix t @ ''.parquet''"

text \<open>The first step of \<open>main\<close>: the data folder is created unless the path exists.\<close>

definition ensure_data_folder :: "world \<Rightarrow> world" where
  "ensure_data_folder w = (if \<not> os_path_exists w DATA_FOLDER then os_makedirs w DATA_FOLDER else w)"

text \<open>
  \<open>main\<close> with the two command line arguments already parsed, and the three readings
  of the clock it makes (two in the planner, one for the file name). The result is the
  last line \<open>main\<close> prints before it returns; an exception that is not caught leaves
  \<open>main\<close> as \<open>Inl\<close>. Only the \<open>ValueError\<close> of the planner is caught.
\<close>

definition main :: "site \<Rightarrow> datetime \<Rightarrow> datetime \<Rightarrow> datetime \<Rightarrow> world \<Rightarrow> int \<Rightarrow> int \<Rightarrow> (error + string) \<times> world" where
  "main srv now1 now2 now3 w0 start_year end_year =
     (let w1 = ensure_data_folder w0 in
      case create_fetch_list now1 now2 start_year end_year of
        Inl (ValueError msg) \<Rightarrow> (Inr msg, w1)
      | Inl err \<Rightarrow> (Inl err, w1)
      | Inr fetch_list \<Rightarrow>
          if fetch_list = [] then (Inr ''No months to fetch data for.'', w1)
          else
            (case get_data_for_months srv w1 fetch_list of
               (Inl err, w2) \<Rightarrow> (Inl err, w2)
             | (Inr result_table, w2) \<Rightarrow>
                 let name = (if os_path_exists w2 file_name_combined then timestamped_name now3
                             else file_name_combined) in
                 (case to_parquet w2 name result_table of
                    (Inl err, w3) \<Rightarrow> (Inl err, w3)
                  | (Inr _, w3) \<Rightarrow> (Inr (''Result table saved as '' @ name), w3))))"

section \<open>Concrete inputs\<close>

text \<open>
  Sites, clock readings and states on which the program is run below: a site that has
  ten rows for January 2023 and an empty table for every other month, a site that
  answers 404 to everything, and the states the cache goes through when March, February
  and January 2023 are resolved in that order.
\<close>

definition demo_row :: row where
  "demo_row = \<lparr>cells = [''Sonali Bank'', ''4.00''], month_year = None\<rparr>"

definition site_2023 :: site where
  "site_2023 pl = Inr \<lparr>status_code = 200,
      html_tables = [if pl = (''January'', ''2023'') then replicate 10 demo_row else []]\<rparr>"

definition site_404 :: site where
  "site_404 pl = Inr \<lparr>status_code = 404, html_tables = []\<rparr>"

definition empty_world :: world where
  "empty_world = \<lparr>files = Map.empty, dirs = {DATA_FOLDER}, posts = []\<rparr>"

definition world_mar :: world where
  "world_mar = \<lparr>files = [cache_path 3 2023 \<mapsto> []], dirs = {DATA_FOLDER},
     posts = [(''March'', ''2023'')]\<rparr>"

definition world_feb :: world where
  "world_feb = \<lparr>files = [cache_path 3 2023 \<mapsto> [], cache_path 2 2023 \<mapsto> []], dirs = {DATA_FOLDER},
     posts = [(''March'', ''2023''), (''February'', ''2023'')]\<rparr>"

definition table_jan :: table where
  "table_jan = replicate 10 (demo_row\<lparr>month_year := Some \<lparr>d_year = 2023, d_month = 1, d_day = 31\<rparr>\<rparr>)"

definition world_jan :: world where
  "world_jan = \<lparr>files = [cache_path 3 2023 \<mapsto> [], cache_path 2 2023 \<mapsto> [],
       cache_path 1 2023 \<mapsto> table_jan],
     dirs = {DATA_FOLDER},
     posts = [(''March'', ''2023''), (''February'', ''2023''), (''January'', ''2023'')]\<rparr>"

definition world_404 :: world where
  "world_404 = \<lparr>files = Map.empty, dirs = {DATA_FOLDER}, posts = [(''January'', ''2023'')]\<rparr>"

text \<open>A cache that holds an empty table for every month, and no directory.\<close>

definition world_all_empty :: world where
  "world_all_empty = \<lparr>files = (\<lambda>p. Some []), dirs = {}, posts = []\<rparr>"

definition clock :: "int \<Rightarrow> int \<Rightarrow> datetime" where
  "clock y m = \<lparr>dt_year = y, dt_month = m, dt_day = 15, dt_hour = 9, dt_minute = 5, dt_second = 7\<rparr>"

text \<open>A working directory in which a combined file of an earlier run exists.\<close>

definition world_prior :: world where
  "world_prior = \<lparr>files = [file_name_combined \<mapsto> [demo_row]], dirs = {DATA_FOLDER}, posts = []\<rparr>"

text \<open>The state after January 2023 has been fetched in \<open>world_prior\<close>.\<close>

definition world_prior_jan :: world where
  "world_prior_jan = \<lparr>files = [file_name_combined \<mapsto> [demo_row], cache_path 1 2023 \<mapsto> table_jan],
     dirs = {DATA_FOLDER}, posts = [(''January'', ''2023'')]\<rparr>"

text \<open>
  A site that answers 404 for February 2023 and has ten rows for every other month, and
  the state after that one request has been sent from \<open>empty_world\<close>.
\<close>

definition site_feb_404 :: site where
  "site_feb_404 pl =
     (if pl = (''February'', ''2023'') then Inr \<lparr>status_code = 404, html_tables = []\<rparr>
      else Inr \<lparr>status_code = 200, html_tables = [replicate 10 demo_row]\<rparr>)"

definition world_feb_404 :: world where
  "world_feb_404 = \<lparr>files = Map.empty, dirs = {DATA_FOLDER}, posts = [(''February'', ''2023'')]\<rparr>"

section \<open>Facts about the helper functions\<close>

lemma month_name_valid:
  "1 \<le> month \<Longrightarrow> month \<le> 12 \<Longrightarrow> month_name month = Inr (month_names ! nat month)"
  by (simp add: month_name_def month_names_def Let_def)

lemma split_head_combined:
  "split_head ''.parquet'' file_name_combined = ''historic_rate_data_bd_banks_combined''"
  by code_simp

lemma timestamped_name_eq:
  "timestamped_name t = ''historic_rate_data_bd_banks_combined'' @ strftime_suffix t @ ''.parquet''"
  by (simp add: timestamped_name_def split_head_combined)

lemma timestamped_name_neq: "timestamped_name t \<noteq> file_name_combined"
  by (simp add: timestamped_name_eq file_name_combined_def strftime_suffix_def)

lemma cache_path_neq_combined: "file_name_combined \<noteq> cache_path m y"
  by (simp add: cache_path_def os_path_join_def DATA_FOLDER_def file_name_combined_def)

lemma cache_path_neq_timestamped: "timestamped_name t \<noteq> cache_path m y"
  by (simp add: cache_path_def os_path_join_def DATA_FOLDER_def timestamped_name_eq)

section \<open>The planner\<close>

lemma set_months_of_year:
  "(m, y) \<in> set (months_of_year cy cm year) \<Longrightarrow> y = year"
  by (auto simp: months_of_year_def Let_def)

lemma create_fetch_list_future_years:
  assumes "dt_year now1 < start_year" and "start_year \<le> end_year"
  shows "create_fetch_list now1 now2 start_year end_year = Inr []"
proof -
  let ?all = "concat (map (months_of_year (dt_year now1) (dt_month now2)) [start_year..end_year])"
  have "\<not> not_beyond (dt_year now1) (dt_month now2) e" if "e \<in> set ?all" for e
  proof -
    obtain m y where e: "e = (m, y)" by (cases e)
    from that e obtain year where "start_year \<le> year"
      and "(m, y) \<in> set (months_of_year (dt_year now1) (dt_month now2) year)"
      by auto
    then have "start_year \<le> y" using set_months_of_year by blast
    with assms e show ?thesis by (simp add: not_beyond_def)
  qed
  then have "filter (not_beyond (dt_year now1) (dt_month now2)) ?all = []"
    by (simp add: filter_empty_conv)
  with assms show ?thesis by (simp add: create_fetch_list_def Let_def)
qed

lemma ensure_data_folder_keeps:
  "posts (ensure_data_folder w) = posts w" "files (ensure_data_folder w) = files w"
  by (simp_all add: ensure_data_folder_def os_makedirs_def)

section \<open>What a resolve changes\<close>

lemma load_or_fetch_data_month_name:
  "load_or_fetch_data srv w month year = (Inr r, w') \<Longrightarrow> \<exists>nm. month_name month = Inr nm"
  by (auto simp: load_or_fetch_data_def get_data_table_def Let_def
      split: sum.splits if_splits prod.splits option.splits)

lemma load_or_fetch_data_files:
  "load_or_fetch_data srv w month year = (r, w') \<Longrightarrow> p \<noteq> cache_path month year \<Longrightarrow>
     files w' p = files w p"
  by (auto simp: load_or_fetch_data_def get_data_table_def requests_post_def to_parquet_def Let_def
      split: sum.splits if_splits prod.splits option.splits)

lemma load_or_fetch_data_dirs:
  "load_or_fetch_data srv w month year = (r, w') \<Longrightarrow> dirs w' = dirs w"
  by (auto simp: load_or_fetch_data_def get_data_table_def requests_post_def to_parquet_def Let_def
      split: sum.splits if_splits prod.splits option.splits)

lemma loop_body_files:
  "loop_body srv w s e = (r, w') \<Longrightarrow> \<forall>m y. p \<noteq> cache_path m y \<Longrightarrow> files w' p = files w p"
  by (auto simp: loop_body_def Let_def dest: load_or_fetch_data_files
      split: sum.splits if_splits prod.splits option.splits)

lemma loop_body_dirs:
  "loop_body srv w s e = (r, w') \<Longrightarrow> dirs w' = dirs w"
  by (auto simp: loop_body_def Let_def dest: load_or_fetch_data_dirs
      split: sum.splits if_splits prod.splits option.splits)

text \<open>
  The loop writes cache files only, and creates no directory: induction over the
  entries, with the state generalised because every iteration changes it.
\<close>

lemma for_loop_keeps:
  "for_loop srv w s es = (r, w') \<Longrightarrow>
     dirs w' = dirs w \<and> ((\<forall>m y. p \<noteq> cache_path m y) \<longrightarrow> files w' p = files w p)"
proof (induction es arbitrary: w s)
  case Nil
  then show ?case by simp
next
  case (Cons e es)
  obtain r1 w1 where b: "loop_body srv w s e = (r1, w1)"
    by (cases "loop_body srv w s e")
  from b have d: "dirs w1 = dirs w"
    by (rule loop_body_dirs)
  from b have f: "(\<forall>m y. p \<noteq> cache_path m y) \<longrightarrow> files w1 p = files w p"
    using loop_body_files by blast
  show ?case
  proof (cases r1)
    case (Inl err)
    with b Cons.prems d f show ?thesis by simp
  next
    case (Inr cs)
    obtain c s' where cs: "cs = (c, s')" by (cases cs)
    show ?thesis
    proof (cases c)
      case Continue
      with b Inr cs Cons.prems have "for_loop srv w1 s' es = (r, w')" by simp
      then have "dirs w' = dirs w1 \<and> ((\<forall>m y. p \<noteq> cache_path m y) \<longrightarrow> files w' p = files w1 p)"
        by (rule Cons.IH)
      with d f show ?thesis by simp
    next
      case Break
      with b Inr cs Cons.prems d f show ?thesis by simp
    qed
  qed
qed

lemma get_data_for_months_keeps:
  assumes "get_data_for_months srv w fetch_list = (r, w')"
  shows "dirs w' = dirs w" and "\<forall>m y. p \<noteq> cache_path m y \<Longrightarrow> files w' p = files w p"
proof -
  obtain r1 where "for_loop srv w agg_init (rev fetch_list) = (r1, w')"
    using assms by (auto simp: get_data_for_months_def split: sum.splits prod.splits)
  then have k: "dirs w' = dirs w \<and> ((\<forall>m y. p \<noteq> cache_path m y) \<longrightarrow> files w' p = files w p)"
    by (rule for_loop_keeps)
  from k show "dirs w' = dirs w" by simp
  from k show "\<forall>m y. p \<noteq> cache_path m y \<Longrightarrow> files w' p = files w p" by simp
qed

section \<open>The aggregation loop\<close>

lemma for_loop_append:
  "for_loop srv w s (xs @ ys) =
     (case for_loop srv w s xs of
        (Inr (Continue, s'), w') \<Rightarrow> for_loop srv w' s' ys
      | r \<Rightarrow> r)"
  by (induction xs arbitrary: w s) (auto split: sum.splits prod.splits ctl.splits)

lemma loop_body_None:
  "load_or_fetch_data srv w month year = (Inr None, w') \<Longrightarrow>
     loop_body srv w s (month, year) = (Inl AttributeError, w')"
  by (simp add: loop_body_def shape_def)

lemma loop_body_empty:
  assumes "load_or_fetch_data srv w month year = (Inr (Some []), w')"
      and "month_name month = Inr nm"
  shows "loop_body srv w s (month, year) =
       (Inr (if consecutive_zero_rows s + 1 = 5 then Break else Continue,
             s\<lparr>consecutive_zero_rows := consecutive_zero_rows s + 1,
               consecutive_zero_months := consecutive_zero_months s @ [nm @ '', '' @ str_int year]\<rparr>), w')"
  using assms by (simp add: loop_body_def shape_def Let_def)

lemma loop_body_rows:
  assumes "load_or_fetch_data srv w month year = (Inr (Some t), w')" and "t \<noteq> []"
  shows "loop_body srv w s (month, year) =
       (Inr (Continue, s\<lparr>all_tables := all_tables s @ [t], consecutive_zero_rows := 0,
               consecutive_zero_months := []\<rparr>), w')"
  using assms by (simp add: loop_body_def shape_def Let_def)

section \<open>The program on the concrete inputs\<close>

lemma str_2023: "str_int 2023 = ''2023''"
  by code_simp

lemma cache_paths_2023:
  "cache_path 1 2023 = ''bd_bank_historical_interest_rate_data/1_2023.parquet''"
  "cache_path 2 2023 = ''bd_bank_historical_interest_rate_data/2_2023.parquet''"
  "cache_path 3 2023 = ''bd_bank_historical_interest_rate_data/3_2023.parquet''"
  by code_simp+

lemma month_names_q1:
  "month_name 1 = Inr ''January''" "month_name 2 = Inr ''February''" "month_name 3 = Inr ''March''"
  "month_name 4 = Inr ''April''" "month_name 5 = Inr ''May''"
  by code_simp+

lemma capitalize_q1:
  "capitalize ''January'' = ''January''" "capitalize ''February'' = ''February''"
  "capitalize ''March'' = ''March''"
  by code_simp+

lemma monthrange_2023:
  "monthrange_days 2023 1 = Inr 31" "monthrange_days 2023 2 = Inr 28" "monthrange_days 2023 3 = Inr 31"
  by code_simp+

lemmas eval_2023 = str_2023 cache_paths_2023 month_names_q1 capitalize_q1 monthrange_2023
  load_or_fetch_data_def get_data_table_def requests_post_def to_parquet_def os_path_exists_def
  pd_read_html_def set_month_year_def DATA_FOLDER_def Let_def

lemma resolve_mar: "load_or_fetch_data site_2023 empty_world 3 2023 = (Inr (Some []), world_mar)"
  by (simp add: eval_2023 site_2023_def empty_world_def world_mar_def)

lemma resolve_feb: "load_or_fetch_data site_2023 world_mar 2 2023 = (Inr (Some []), world_feb)"
  by (simp add: eval_2023 site_2023_def world_feb_def world_mar_def)

lemma resolve_jan: "load_or_fetch_data site_2023 world_feb 1 2023 = (Inr (Some table_jan), world_jan)"
  by (simp add: eval_2023 site_2023_def world_feb_def world_jan_def table_jan_def)

lemma resolve_404: "load_or_fetch_data site_404 empty_world 1 2023 = (Inr None, world_404)"
  by (simp add: eval_2023 site_404_def empty_world_def world_404_def)

lemma resolve_all_empty:
  "- 13 \<le> month \<Longrightarrow> month \<le> 12 \<Longrightarrow>
     load_or_fetch_data srv world_all_empty month year = (Inr (Some []), world_all_empty)"
  by (simp add: load_or_fetch_data_def world_all_empty_def os_path_exists_def read_parquet_def
      month_name_def month_names_def Let_def)

section \<open>Claims about the planner\<close>

text \<open>
  C2. For every pair of years with \<open>end_year < start_year\<close>, \<open>create_fetch_list\<close> raises
  its \<open>ValueError\<close> (the invalid range error) and no fetch is performed: \<open>main\<close> prints the
  message of the error and returns in the state it had once the data folder was seen to,
  with the request log and the files as they were.
\<close>

theorem create_fetch_list_invalid_range:
  assumes "end_year < start_year"
  shows "create_fetch_list now1 now2 start_year end_year
           = Inl (ValueError ''End year cannot be smaller than start year.'')
       \<and> main srv now1 now2 now3 w start_year end_year
           = (Inr ''End year cannot be smaller than start year.'', ensure_data_folder w)
       \<and> posts (ensure_data_folder w) = posts w
       \<and> files (ensure_data_folder w) = files w"
proof -
  from assms have raised: "create_fetch_list now1 now2 start_year end_year
      = Inl (ValueError ''End year cannot be smaller than start year.'')"
    by (simp add: create_fetch_list_def)
  then have "main srv now1 now2 now3 w start_year end_year
      = (Inr ''End year cannot be smaller than start year.'', ensure_data_folder w)"
    by (simp add: main_def)
  with raised show ?thesis
    by (simp add: ensure_data_folder_keeps)
qed

theorem create_fetch_list_invalid_range_witness:
  "(2020::int) < 2024
   \<and> create_fetch_list (clock 2024 3) (clock 2024 3) 2024 2020
        = Inl (ValueError ''End year cannot be smaller than start year.'')
   \<and> main site_2023 (clock 2024 3) (clock 2024 3) (clock 2024 3) empty_world 2024 2020
        = (Inr ''End year cannot be smaller than start year.'', empty_world)"
proof -
  have e: "ensure_data_folder empty_world = empty_world"
    by (simp add: ensure_data_folder_def os_path_exists_def empty_world_def)
  show ?thesis
    using create_fetch_list_invalid_range
      [of 2020 2024 "clock 2024 3" "clock 2024 3" site_2023 "clock 2024 3" empty_world]
    by (simp add: e)
qed

text \<open>
  C3. For every valid range (\<open>start_year \<le> end_year\<close>) and every reading of the clock,
  \<open>create_fetch_list\<close> returns a plan, and no entry of the plan has (year, month) strictly
  later than (current year, current month).
\<close>

theorem create_fetch_list_no_future:
  assumes "start_year \<le> end_year"
  shows "\<exists>plan. create_fetch_list now1 now2 start_year end_year = Inr plan
           \<and> (\<forall>(month, year) \<in> set plan.
                 \<not> (dt_year now1 < year \<or> (year = dt_year now1 \<and> dt_month now2 < month)))"
proof -
  let ?all = "concat (map (months_of_year (dt_year now1) (dt_month now2)) [start_year..end_year])"
  let ?plan = "filter (not_beyond (dt_year now1) (dt_month now2)) ?all"
  from assms have "create_fetch_list now1 now2 start_year end_year = Inr ?plan"
    by (simp add: create_fetch_list_def Let_def)
  moreover have "\<forall>(month, year) \<in> set ?plan.
      \<not> (dt_year now1 < year \<or> (year = dt_year now1 \<and> dt_month now2 < month))"
    by (auto simp: not_beyond_def)
  ultimately show ?thesis by blast
qed

lemma plan_2023_2025:
  "create_fetch_list (clock 2024 3) (clock 2024 3) 2023 2025 =
     Inr [(1, 2023), (2, 2023), (3, 2023), (4, 2023), (5, 2023), (6, 2023), (7, 2023), (8, 2023),
          (9, 2023), (10, 2023), (11, 2023), (12, 2023), (1, 2024), (2, 2024), (3, 2024)]"
  by code_simp

theorem create_fetch_list_no_future_witness:
  "(2023::int) \<le> 2025
   \<and> (\<exists>plan. create_fetch_list (clock 2024 3) (clock 2024 3) 2023 2025 = Inr plan
        \<and> (3, 2024) \<in> set plan \<and> (4, 2024) \<notin> set plan \<and> (1, 2025) \<notin> set plan)"
  using create_fetch_list_no_future [of 2023 2025 "clock 2024 3" "clock 2024 3"]
  by (simp add: plan_2023_2025)

text \<open>
  C8. When the filtered range has no entry (as when both years lie after the current
  year), \<open>create_fetch_list\<close> returns the empty plan and raises nothing; on an empty plan
  \<open>main\<close> prints its message and returns, with no request sent and no file written.
\<close>

theorem empty_plan_is_noop:
  "(dt_year now1 < start_year \<and> start_year \<le> end_year
      \<longrightarrow> create_fetch_list now1 now2 start_year end_year = Inr [])
   \<and> (create_fetch_list now1 now2 start_year end_year = Inr []
      \<longrightarrow> main srv now1 now2 now3 w start_year end_year
            = (Inr ''No months to fetch data for.'', ensure_data_folder w)
        \<and> posts (ensure_data_folder w) = posts w
        \<and> files (ensure_data_folder w) = files w)"
proof (intro conjI impI)
  assume "dt_year now1 < start_year \<and> start_year \<le> end_year"
  then show "create_fetch_list now1 now2 start_year end_year = Inr []"
    by (simp add: create_fetch_list_future_years)
next
  assume "create_fetch_list now1 now2 start_year end_year = Inr []"
  then show "main srv now1 now2 now3 w start_year end_year
      = (Inr ''No months to fetch data for.'', ensure_data_folder w)"
    by (simp add: main_def)
next
  show "posts (ensure_data_folder w) = posts w" by (rule ensure_data_folder_keeps)
next
  show "files (ensure_data_folder w) = files w" by (rule ensure_data_folder_keeps)
qed

theorem empty_plan_is_noop_witness:
  "dt_year (clock 2024 3) < 2025 \<and> (2025::int) \<le> 2026
   \<and> create_fetch_list (clock 2024 3) (clock 2024 3) 2025 2026 = Inr []
   \<and> main site_2023 (clock 2024 3) (clock 2024 3) (clock 2024 3) empty_world 2025 2026
        = (Inr ''No months to fetch data for.'', empty_world)"
proof -
  have y: "dt_year (clock 2024 3) < 2025 \<and> (2025::int) \<le> 2026"
    by (simp add: clock_def)
  have e: "ensure_data_folder empty_world = empty_world"
    by (simp add: ensure_data_folder_def os_path_exists_def empty_world_def)
  from y e show ?thesis
    using empty_plan_is_noop
      [of "clock 2024 3" 2025 2026 "clock 2024 3" site_2023 "clock 2024 3" empty_world]
    by simp
qed

section \<open>Claims about the fetch and the cache\<close>

text \<open>
  The fetch alone: for a month of the calendar and any year, when the site answers the
  request with a status other than 200, \<open>get_data_table\<close> raises nothing: it sends the
  one request and returns \<open>None\<close>. On a cache miss \<open>load_or_fetch_data\<close> hands the
  same \<open>None\<close> on, and stores nothing.
\<close>

lemma get_data_table_non_200:
  assumes "1 \<le> month" and "month \<le> 12"
      and "srv (capitalize (month_names ! nat month), str_int year) = Inr resp"
      and "status_code resp \<noteq> 200"
  shows "get_data_table srv w month year
           = (Inr None, w\<lparr>posts := posts w @ [(capitalize (month_names ! nat month), str_int year)]\<rparr>)
       \<and> (\<not> os_path_exists w (cache_path month year) \<longrightarrow>
            load_or_fetch_data srv w month year
              = (Inr None, w\<lparr>posts := posts w @ [(capitalize (month_names ! nat month), str_int year)]\<rparr>))"
proof -
  have g: "get_data_table srv w month year
      = (Inr None, w\<lparr>posts := posts w @ [(capitalize (month_names ! nat month), str_int year)]\<rparr>)"
    using assms
    by (simp add: get_data_table_def month_name_valid monthrange_days_def requests_post_def Let_def)
  then show ?thesis
    by (simp add: load_or_fetch_data_def Let_def)
qed

lemma plan_2023_february:
  "create_fetch_list (clock 2023 2) (clock 2023 2) 2023 2023 = Inr [(1, 2023), (2, 2023)]"
  by code_simp

lemma fetch_feb_404:
  "get_data_table site_feb_404 empty_world 2 2023 = (Inr None, world_feb_404)"
proof -
  have n: "capitalize (month_names ! nat 2) = ''February''"
    by code_simp
  have w: "empty_world\<lparr>posts := posts empty_world @ [(''February'', ''2023'')]\<rparr> = world_feb_404"
    by (simp add: empty_world_def world_feb_404_def)
  have "site_feb_404 (capitalize (month_names ! nat 2), str_int 2023)
      = Inr \<lparr>status_code = 404, html_tables = []\<rparr>"
    unfolding n str_2023 by (simp add: site_feb_404_def)
  then have "get_data_table site_feb_404 empty_world 2 2023
      = (Inr None, empty_world\<lparr>posts := posts empty_world
           @ [(capitalize (month_names ! nat 2), str_int 2023)]\<rparr>)"
    using get_data_table_non_200
      [of 2 site_feb_404 2023 "\<lparr>status_code = 404, html_tables = []\<rparr>" empty_world]
    by simp
  then show ?thesis
    unfolding n str_2023 w .
qed

lemma resolve_feb_404:
  "load_or_fetch_data site_feb_404 empty_world 2 2023 = (Inr None, world_feb_404)"
proof -
  have "\<not> os_path_exists empty_world (cache_path 2 2023)"
    by (simp add: os_path_exists_def empty_world_def cache_paths_2023 DATA_FOLDER_def)
  then show ?thesis
    by (simp add: load_or_fetch_data_def Let_def fetch_feb_404)
qed

text \<open>
  C6. On a status other than 200 \<open>get_data_table\<close> raises nothing and returns \<open>None\<close>,
  and \<open>load_or_fetch_data\<close> hands the \<open>None\<close> on; but one level up the \<open>None\<close> is not a
  soft condition of that one month. The program is run for 2023 in February 2023, on
  an empty cache, against a site that answers 404 for February only: the fetch of
  February returns \<open>None\<close>, the loop reads its \<open>shape\<close> before the test for \<open>None\<close>,
  and \<open>get_data_for_months\<close> and \<open>main\<close> raise \<open>AttributeError\<close>. The one request
  sent is that for February: January is never requested, and no file is written.
\<close>

theorem non_200_ends_the_run:
  "get_data_table site_feb_404 empty_world 2 2023 = (Inr None, world_feb_404)
   \<and> load_or_fetch_data site_feb_404 empty_world 2 2023 = (Inr None, world_feb_404)
   \<and> create_fetch_list (clock 2023 2) (clock 2023 2) 2023 2023 = Inr [(1, 2023), (2, 2023)]
   \<and> get_data_for_months site_feb_404 empty_world [(1, 2023), (2, 2023)]
       = (Inl AttributeError, world_feb_404)
   \<and> main site_feb_404 (clock 2023 2) (clock 2023 2) (clock 2023 2) empty_world 2023 2023
       = (Inl AttributeError, world_feb_404)
   \<and> posts world_feb_404 = [(''February'', ''2023'')]
   \<and> files world_feb_404 = Map.empty"
proof -
  have body: "loop_body site_feb_404 empty_world agg_init (2, 2023) = (Inl AttributeError, world_feb_404)"
    using resolve_feb_404 by (rule loop_body_None)
  have agg: "get_data_for_months site_feb_404 empty_world [(1, 2023), (2, 2023)]
      = (Inl AttributeError, world_feb_404)"
    by (simp add: get_data_for_months_def body)
  have e: "ensure_data_folder empty_world = empty_world"
    by (simp add: ensure_data_folder_def os_path_exists_def empty_world_def)
  have m: "main site_feb_404 (clock 2023 2) (clock 2023 2) (clock 2023 2) empty_world 2023 2023
      = (Inl AttributeError, world_feb_404)"
    by (simp add: main_def plan_2023_february e agg del: for_loop.simps)
  have w: "posts world_feb_404 = [(''February'', ''2023'')] \<and> files world_feb_404 = Map.empty"
    by (simp add: world_feb_404_def)
  from fetch_feb_404 resolve_feb_404 plan_2023_february agg m w show ?thesis
    by (simp del: for_loop.simps)
qed

text \<open>
  C5. Resolving the same (month, year) twice performs exactly one remote fetch: when the
  first call misses the cache and its fetch gives a table, that call sends one request
  and stores the table under the cache path, and the second call, whatever the site
  would answer, returns the same table and leaves the state, request log included,
  as it was.
\<close>

theorem load_or_fetch_data_idempotent:
  assumes miss: "\<not> os_path_exists w (cache_path month year)"
      and first: "load_or_fetch_data srv w month year = (Inr (Some t), w1)"
  shows "load_or_fetch_data srv' w1 month year = (Inr (Some t), w1)
       \<and> (\<exists>pl. posts w1 = posts w @ [pl])
       \<and> files w1 = (files w)(cache_path month year \<mapsto> t)"
proof -
  from miss first obtain w' where
    g: "get_data_table srv w month year = (Inr (Some t), w')" and
    p: "to_parquet w' (cache_path month year) t = (Inr (), w1)"
    by (auto simp: load_or_fetch_data_def Let_def split: sum.splits prod.splits option.splits)
  from g obtain nm where nm: "month_name month = Inr nm"
    by (auto simp: get_data_table_def split: sum.splits)
  from g have w': "files w' = files w" "\<exists>pl. posts w' = posts w @ [pl]"
    by (auto simp: get_data_table_def requests_post_def Let_def
        split: sum.splits if_splits prod.splits)
  from p have w1: "w1 = w'\<lparr>files := (files w')(cache_path month year \<mapsto> t)\<rparr>"
    by (auto simp: to_parquet_def split: if_splits)
  have "load_or_fetch_data srv' w1 month year = (Inr (Some t), w1)"
    using nm w1 by (simp add: load_or_fetch_data_def Let_def os_path_exists_def read_parquet_def)
  with w' w1 show ?thesis by simp
qed

theorem load_or_fetch_data_idempotent_witness:
  "\<not> os_path_exists world_feb (cache_path 1 2023)
   \<and> load_or_fetch_data site_2023 world_feb 1 2023 = (Inr (Some table_jan), world_jan)
   \<and> load_or_fetch_data site_404 world_jan 1 2023 = (Inr (Some table_jan), world_jan)
   \<and> posts world_jan = posts world_feb @ [(''January'', ''2023'')]
   \<and> length table_jan = 10"
proof -
  have m: "\<not> os_path_exists world_feb (cache_path 1 2023)"
    by (simp add: os_path_exists_def world_feb_def cache_paths_2023 DATA_FOLDER_def)
  have p: "posts world_jan = posts world_feb @ [(''January'', ''2023'')]"
    by (simp add: world_jan_def world_feb_def)
  from m p show ?thesis
    using load_or_fetch_data_idempotent [OF m resolve_jan, of site_404]
    by (simp add: resolve_jan table_jan_def)
qed

section \<open>Claims about the aggregation\<close>

text \<open>
  C10. \<open>get_data_for_months\<close> returns only if every entry it processes resolves to a
  table: when the loop reaches an entry whose resolve gives \<open>None\<close>, the \<open>shape\<close>
  attribute is read before the test for \<open>None\<close>, so the iteration raises
  \<open>AttributeError\<close>, the loop and the function raise with it, and neither the branch that
  counts an empty month nor the entries after it are reached.
\<close>

theorem absent_result_raises:
  assumes pre: "for_loop srv w agg_init pre = (Inr (Continue, s1), w1)"
      and absent: "load_or_fetch_data srv w1 month year = (Inr None, w2)"
  shows "loop_body srv w1 s1 (month, year) = (Inl AttributeError, w2)
       \<and> for_loop srv w agg_init (pre @ (month, year) # post) = (Inl AttributeError, w2)
       \<and> get_data_for_months srv w (rev post @ (month, year) # rev pre) = (Inl AttributeError, w2)"
proof -
  from absent have body: "loop_body srv w1 s1 (month, year) = (Inl AttributeError, w2)"
    by (rule loop_body_None)
  then have "for_loop srv w1 s1 ((month, year) # post) = (Inl AttributeError, w2)"
    by simp
  with pre have loop: "for_loop srv w agg_init (pre @ (month, year) # post) = (Inl AttributeError, w2)"
    by (simp add: for_loop_append)
  have "rev (rev post @ (month, year) # rev pre) = pre @ (month, year) # post"
    by simp
  with loop have "get_data_for_months srv w (rev post @ (month, year) # rev pre)
      = (Inl AttributeError, w2)"
    by (simp add: get_data_for_months_def)
  with body loop show ?thesis by simp
qed

theorem absent_result_raises_witness:
  "for_loop site_404 empty_world agg_init [] = (Inr (Continue, agg_init), empty_world)
   \<and> load_or_fetch_data site_404 empty_world 1 2023 = (Inr None, world_404)
   \<and> get_data_for_months site_404 empty_world [(12, 2022), (1, 2023)] = (Inl AttributeError, world_404)"
proof -
  have p: "for_loop site_404 empty_world agg_init [] = (Inr (Continue, agg_init), empty_world)"
    by simp
  from p resolve_404 show ?thesis
    using absent_result_raises [OF p resolve_404, of "[(12, 2022)]"]
    by simp
qed

text \<open>
  C1, as the code has it. Every result that is a table with zero rows increments the
  counter of consecutive empty months and appends the label of the month; when the
  counter reaches 5 the iteration ends the loop, and the entries that remain are not
  processed: the loop returns the state right after that resolve, whatever follows
  in the plan.
\<close>

theorem zero_rows_counted:
  assumes resolved: "load_or_fetch_data srv w month year = (Inr (Some t), w')"
      and zero: "length t = 0"
  shows "\<exists>nm. month_name month = Inr nm
       \<and> loop_body srv w s (month, year)
           = (Inr (if consecutive_zero_rows s + 1 = 5 then Break else Continue,
                   s\<lparr>consecutive_zero_rows := consecutive_zero_rows s + 1,
                     consecutive_zero_months := consecutive_zero_months s @ [nm @ '', '' @ str_int year]\<rparr>), w')
       \<and> (consecutive_zero_rows s + 1 = 5 \<longrightarrow>
            for_loop srv w s ((month, year) # rest)
              = (Inr (Break,
                   s\<lparr>consecutive_zero_rows := 5,
                     consecutive_zero_months := consecutive_zero_months s @ [nm @ '', '' @ str_int year]\<rparr>), w'))"
proof -
  from zero have t: "t = []" by simp
  from resolved obtain nm where nm: "month_name month = Inr nm"
    using load_or_fetch_data_month_name by blast
  from resolved t nm have body: "loop_body srv w s (month, year)
      = (Inr (if consecutive_zero_rows s + 1 = 5 then Break else Continue,
              s\<lparr>consecutive_zero_rows := consecutive_zero_rows s + 1,
                consecutive_zero_months := consecutive_zero_months s @ [nm @ '', '' @ str_int year]\<rparr>), w')"
    by (simp add: loop_body_empty)
  have "for_loop srv w s ((month, year) # rest)
      = (Inr (Break,
           s\<lparr>consecutive_zero_rows := 5,
             consecutive_zero_months := consecutive_zero_months s @ [nm @ '', '' @ str_int year]\<rparr>), w')"
    if "consecutive_zero_rows s + 1 = 5"
    using that body by simp
  with nm body show ?thesis by blast
qed

theorem zero_rows_counted_witness:
  "load_or_fetch_data site_2023 empty_world 3 2023 = (Inr (Some []), world_mar)
   \<and> length ([] :: table) = 0
   \<and> consecutive_zero_rows (agg_init\<lparr>consecutive_zero_rows := 4\<rparr>) + 1 = 5
   \<and> for_loop site_2023 empty_world (agg_init\<lparr>consecutive_zero_rows := 4\<rparr>) [(3, 2023), (2, 2023)]
       = (Inr (Break, agg_init\<lparr>consecutive_zero_rows := 5, consecutive_zero_months := [''March, 2023'']\<rparr>),
          world_mar)"
  using zero_rows_counted
    [OF resolve_mar, of "agg_init\<lparr>consecutive_zero_rows := 4\<rparr>" "[(2, 2023)]"]
  by (simp add: resolve_mar month_names_q1 str_2023 agg_init_def)

text \<open>
  C1 as it is stated fails for a result that is absent. The site answers 404, so the
  resolve of January 2023 gives \<open>None\<close>; the iteration then raises \<open>AttributeError\<close>
  and returns no state in which the counter is 1 with one label.
\<close>

theorem absent_not_counted:
  "load_or_fetch_data site_404 empty_world 1 2023 = (Inr None, world_404)
   \<and> loop_body site_404 empty_world agg_init (1, 2023) = (Inl AttributeError, world_404)
   \<and> loop_body site_404 empty_world agg_init (1, 2023)
       \<noteq> (Inr (Continue, agg_init\<lparr>consecutive_zero_rows := 1,
                                   consecutive_zero_months := [''January, 2023'']\<rparr>), world_404)"
  by (simp add: resolve_404 loop_body_None)

text \<open>
  C7. For the plan [(1,2023), (2,2023), (3,2023)], when the resolves of March and of
  February give tables with zero rows and the resolve of January gives a table of ten
  rows: after March the counter is 1, after February it is 2, after January it is 0
  and the labels are cleared; no iteration breaks, the loop ends with the plan, only
  the January table is collected, and the result is that table, of 10 rows.
\<close>

theorem scenario_2023:
  assumes mar: "load_or_fetch_data srv w0 3 2023 = (Inr (Some t3), w1)" and "length t3 = 0"
      and feb: "load_or_fetch_data srv w1 2 2023 = (Inr (Some t2), w2)" and "length t2 = 0"
      and jan: "load_or_fetch_data srv w2 1 2023 = (Inr (Some t1), w3)" and "length t1 = 10"
  shows "for_loop srv w0 agg_init [(3, 2023)]
           = (Inr (Continue, \<lparr>all_tables = [], consecutive_zero_rows = 1,
                consecutive_zero_months = [''March, 2023'']\<rparr>), w1)
       \<and> for_loop srv w0 agg_init [(3, 2023), (2, 2023)]
           = (Inr (Continue, \<lparr>all_tables = [], consecutive_zero_rows = 2,
                consecutive_zero_months = [''March, 2023'', ''February, 2023'']\<rparr>), w2)
       \<and> for_loop srv w0 agg_init (rev [(1, 2023), (2, 2023), (3, 2023)])
           = (Inr (Continue, \<lparr>all_tables = [t1], consecutive_zero_rows = 0,
                consecutive_zero_months = []\<rparr>), w3)
       \<and> get_data_for_months srv w0 [(1, 2023), (2, 2023), (3, 2023)] = (Inr t1, w3)
       \<and> length t1 = 10"
proof -
  from assms have t: "t3 = []" "t2 = []" "t1 \<noteq> []" by auto
  have b3: "loop_body srv w0 agg_init (3, 2023)
      = (Inr (Continue, \<lparr>all_tables = [], consecutive_zero_rows = 1,
           consecutive_zero_months = [''March, 2023'']\<rparr>), w1)"
    using mar t by (simp add: loop_body_empty [where nm = "''March''"] month_names_q1 str_2023 agg_init_def)
  have b2: "loop_body srv w1 \<lparr>all_tables = [], consecutive_zero_rows = 1,
           consecutive_zero_months = [''March, 2023'']\<rparr> (2, 2023)
      = (Inr (Continue, \<lparr>all_tables = [], consecutive_zero_rows = 2,
           consecutive_zero_months = [''March, 2023'', ''February, 2023'']\<rparr>), w2)"
    using feb t by (simp add: loop_body_empty [where nm = "''February''"] month_names_q1 str_2023)
  have b1: "loop_body srv w2 \<lparr>all_tables = [], consecutive_zero_rows = 2,
           consecutive_zero_months = [''March, 2023'', ''February, 2023'']\<rparr> (1, 2023)
      = (Inr (Continue, \<lparr>all_tables = [t1], consecutive_zero_rows = 0,
           consecutive_zero_months = []\<rparr>), w3)"
    using jan t by (simp add: loop_body_rows)
  have l3: "for_loop srv w0 agg_init [(3, 2023)]
      = (Inr (Continue, \<lparr>all_tables = [], consecutive_zero_rows = 1,
           consecutive_zero_months = [''March, 2023'']\<rparr>), w1)"
    by (simp add: b3)
  have l2: "for_loop srv w0 agg_init [(3, 2023), (2, 2023)]
      = (Inr (Continue, \<lparr>all_tables = [], consecutive_zero_rows = 2,
           consecutive_zero_months = [''March, 2023'', ''February, 2023'']\<rparr>), w2)"
    by (simp add: b3 b2)
  have l1: "for_loop srv w0 agg_init [(3, 2023), (2, 2023), (1, 2023)]
      = (Inr (Continue, \<lparr>all_tables = [t1], consecutive_zero_rows = 0,
           consecutive_zero_months = []\<rparr>), w3)"
    by (simp add: b3 b2 b1)
  have g: "get_data_for_months srv w0 [(1, 2023), (2, 2023), (3, 2023)] = (Inr t1, w3)"
    by (simp add: get_data_for_months_def l1 pd_concat_def del: for_loop.simps)
  from l3 l2 l1 g assms(6) show ?thesis by (simp del: for_loop.simps)
qed

theorem scenario_2023_witness:
  "load_or_fetch_data site_2023 empty_world 3 2023 = (Inr (Some []), world_mar)
   \<and> load_or_fetch_data site_2023 world_mar 2 2023 = (Inr (Some []), world_feb)
   \<and> load_or_fetch_data site_2023 world_feb 1 2023 = (Inr (Some table_jan), world_jan)
   \<and> length table_jan = 10
   \<and> get_data_for_months site_2023 empty_world [(1, 2023), (2, 2023), (3, 2023)]
       = (Inr table_jan, world_jan)"
proof -
  have z: "length ([] :: table) = 0" by simp
  have n: "length table_jan = 10" by (simp add: table_jan_def)
  from n show ?thesis
    using scenario_2023 [OF resolve_mar z resolve_feb z resolve_jan n]
    by (simp add: resolve_mar resolve_feb resolve_jan)
qed

lemma plan_2023_june:
  "create_fetch_list (clock 2023 6) (clock 2023 6) 2023 2023 =
     Inr [(1, 2023), (2, 2023), (3, 2023), (4, 2023), (5, 2023), (6, 2023)]"
  by code_simp

lemma plan_2023_january:
  "create_fetch_list (clock 2023 1) (clock 2023 1) 2023 2023 = Inr [(1, 2023)]"
  by code_simp

lemma month_name_june: "month_name 6 = Inr ''June''"
  by code_simp

lemma loop_all_empty:
  "for_loop site_404 world_all_empty agg_init (rev [(1, 2023), (2, 2023), (3, 2023), (4, 2023), (5, 2023), (6, 2023)])
     = (Inr (Break, \<lparr>all_tables = [], consecutive_zero_rows = 5,
          consecutive_zero_months =
            [''June, 2023'', ''May, 2023'', ''April, 2023'', ''March, 2023'', ''February, 2023'']\<rparr>),
        world_all_empty)"
  by (simp add: loop_body_def resolve_all_empty shape_def month_names_q1 month_name_june str_2023
      agg_init_def Let_def)

lemma timestamped_name_2024:
  "timestamped_name (clock 2024 3) = ''historic_rate_data_bd_banks_combined_2024-03-15_09-05-07_GMT.parquet''"
  by code_simp

lemma resolve_prior_jan:
  "load_or_fetch_data site_2023 world_prior 1 2023 = (Inr (Some table_jan), world_prior_jan)"
  by (simp add: eval_2023 site_2023_def world_prior_def world_prior_jan_def table_jan_def
      file_name_combined_def)

lemma aggregate_prior_jan:
  "get_data_for_months site_2023 world_prior [(1, 2023)] = (Inr table_jan, world_prior_jan)"
proof -
  have "table_jan \<noteq> []"
    by (simp add: table_jan_def)
  with resolve_prior_jan have "loop_body site_2023 world_prior agg_init (1, 2023)
      = (Inr (Continue, agg_init\<lparr>all_tables := all_tables agg_init @ [table_jan],
           consecutive_zero_rows := 0, consecutive_zero_months := []\<rparr>), world_prior_jan)"
    by (rule loop_body_rows)
  then show ?thesis
    by (simp add: get_data_for_months_def pd_concat_def agg_init_def)
qed

text \<open>
  C4. When the loop ends, by exhausting the plan or by the break, with nothing
  collected, \<open>get_data_for_months\<close> fails with the \<open>ValueError\<close> of \<open>pd.concat\<close>
  (no data collected) and returns no table; \<open>main\<close> does not catch it, so \<open>main\<close> fails
  with the same error and writes no combined file, under neither of its two names.
\<close>

theorem no_data_collected:
  assumes loop: "for_loop srv w agg_init (rev fetch_list) = (Inr (c, s), w')"
      and uncollected: "all_tables s = []"
  shows "get_data_for_months srv w fetch_list = (Inl (ValueError ''No objects to concatenate''), w')
       \<and> (create_fetch_list now1 now2 start_year end_year = Inr fetch_list \<and> fetch_list \<noteq> []
            \<and> w = ensure_data_folder w0 \<longrightarrow>
            main srv now1 now2 now3 w0 start_year end_year
              = (Inl (ValueError ''No objects to concatenate''), w')
            \<and> files w' file_name_combined = files w0 file_name_combined
            \<and> files w' (timestamped_name now3) = files w0 (timestamped_name now3))"
proof -
  have g: "get_data_for_months srv w fetch_list
      = (Inl (ValueError ''No objects to concatenate''), w')"
    unfolding get_data_for_months_def loop by (simp add: pd_concat_def uncollected)
  have "main srv now1 now2 now3 w0 start_year end_year
          = (Inl (ValueError ''No objects to concatenate''), w')
        \<and> files w' file_name_combined = files w0 file_name_combined
        \<and> files w' (timestamped_name now3) = files w0 (timestamped_name now3)"
    if plan: "create_fetch_list now1 now2 start_year end_year = Inr fetch_list"
      and ne: "fetch_list \<noteq> []" and w: "w = ensure_data_folder w0"
  proof -
    from plan ne g w have m: "main srv now1 now2 now3 w0 start_year end_year
        = (Inl (ValueError ''No objects to concatenate''), w')"
      by (simp add: main_def)
    have "files w' file_name_combined = files w file_name_combined"
      using g cache_path_neq_combined by (intro get_data_for_months_keeps(2)) auto
    moreover have "files w' (timestamped_name now3) = files w (timestamped_name now3)"
      using g cache_path_neq_timestamped by (intro get_data_for_months_keeps(2)) auto
    ultimately show ?thesis using m w by (simp add: ensure_data_folder_keeps)
  qed
  with g show ?thesis by blast
qed

theorem no_data_collected_witness:
  "for_loop site_404 world_all_empty agg_init (rev [(1, 2023), (2, 2023), (3, 2023), (4, 2023), (5, 2023), (6, 2023)])
     = (Inr (Break, \<lparr>all_tables = [], consecutive_zero_rows = 5,
          consecutive_zero_months =
            [''June, 2023'', ''May, 2023'', ''April, 2023'', ''March, 2023'', ''February, 2023'']\<rparr>),
        world_all_empty)
   \<and> create_fetch_list (clock 2023 6) (clock 2023 6) 2023 2023
       = Inr [(1, 2023), (2, 2023), (3, 2023), (4, 2023), (5, 2023), (6, 2023)]
   \<and> world_all_empty = ensure_data_folder world_all_empty
   \<and> main site_404 (clock 2023 6) (clock 2023 6) (clock 2024 3) world_all_empty 2023 2023
       = (Inl (ValueError ''No objects to concatenate''), world_all_empty)"
proof -
  have e: "world_all_empty = ensure_data_folder world_all_empty"
    by (simp add: ensure_data_folder_def os_path_exists_def world_all_empty_def)
  have n: "all_tables \<lparr>all_tables = [], consecutive_zero_rows = 5,
          consecutive_zero_months =
            [''June, 2023'', ''May, 2023'', ''April, 2023'', ''March, 2023'', ''February, 2023'']\<rparr> = []"
    by simp
  have "main site_404 (clock 2023 6) (clock 2023 6) (clock 2024 3) world_all_empty 2023 2023
       = (Inl (ValueError ''No objects to concatenate''), world_all_empty)"
    using no_data_collected [OF loop_all_empty n, where ?now1.0 = "clock 2023 6"
        and ?now2.0 = "clock 2023 6" and start_year = 2023 and end_year = 2023
        and ?w0.0 = world_all_empty and ?now3.0 = "clock 2024 3"] plan_2023_june e
    by simp
  with loop_all_empty plan_2023_june e show ?thesis by simp
qed

section \<open>Claims about the combined output\<close>

text \<open>
  C9. When a file named \<open>historic_rate_data_bd_banks_combined.parquet\<close> exists at the
  time the result is written, \<open>main\<close> writes the result under another name: the stem of
  that name, then the UTC time as \<open>_year-month-day_hour-minute-second_GMT\<close>, then
  \<open>.parquet\<close>. The name differs from the plain one, and the file of the earlier run
  is as it was before \<open>main\<close> ran.
\<close>

theorem combined_name_collision:
  assumes plan: "create_fetch_list now1 now2 start_year end_year = Inr fetch_list"
      and ne: "fetch_list \<noteq> []"
      and agg: "get_data_for_months srv (ensure_data_folder w0) fetch_list = (Inr result_table, w2)"
      and prior: "os_path_exists w2 file_name_combined"
      and nodir: "timestamped_name now3 \<notin> dirs w2"
  shows "main srv now1 now2 now3 w0 start_year end_year
           = (Inr (''Result table saved as '' @ timestamped_name now3),
              w2\<lparr>files := (files w2)(timestamped_name now3 \<mapsto> result_table)\<rparr>)
       \<and> timestamped_name now3 \<noteq> file_name_combined
       \<and> timestamped_name now3
           = ''historic_rate_data_bd_banks_combined'' @ ''_'' @ str_int (dt_year now3)
               @ ''-'' @ pad2 (dt_month now3) @ ''-'' @ pad2 (dt_day now3)
               @ ''_'' @ pad2 (dt_hour now3) @ ''-'' @ pad2 (dt_minute now3)
               @ ''-'' @ pad2 (dt_second now3) @ ''_GMT'' @ ''.parquet''
       \<and> files (snd (main srv now1 now2 now3 w0 start_year end_year)) file_name_combined
           = files w0 file_name_combined"
proof -
  from plan ne agg prior nodir have m: "main srv now1 now2 now3 w0 start_year end_year
      = (Inr (''Result table saved as '' @ timestamped_name now3),
         w2\<lparr>files := (files w2)(timestamped_name now3 \<mapsto> result_table)\<rparr>)"
    by (simp add: main_def to_parquet_def Let_def)
  have "files w2 file_name_combined = files (ensure_data_folder w0) file_name_combined"
    using agg cache_path_neq_combined by (intro get_data_for_months_keeps(2)) auto
  then have kept: "files w2 file_name_combined = files w0 file_name_combined"
    by (simp add: ensure_data_folder_keeps)
  have name: "timestamped_name now3
           = ''historic_rate_data_bd_banks_combined'' @ ''_'' @ str_int (dt_year now3)
               @ ''-'' @ pad2 (dt_month now3) @ ''-'' @ pad2 (dt_day now3)
               @ ''_'' @ pad2 (dt_hour now3) @ ''-'' @ pad2 (dt_minute now3)
               @ ''-'' @ pad2 (dt_second now3) @ ''_GMT'' @ ''.parquet''"
    by (simp add: timestamped_name_eq strftime_suffix_def)
  have "files (snd (main srv now1 now2 now3 w0 start_year end_year)) file_name_combined
      = files w0 file_name_combined"
    using timestamped_name_neq [of now3] by (simp add: m kept)
  with m name timestamped_name_neq [of now3] show ?thesis by blast
qed

theorem combined_name_collision_witness:
  "create_fetch_list (clock 2023 1) (clock 2023 1) 2023 2023 = Inr [(1, 2023)]
   \<and> get_data_for_months site_2023 (ensure_data_folder world_prior) [(1, 2023)]
       = (Inr table_jan, world_prior_jan)
   \<and> os_path_exists world_prior_jan file_name_combined
   \<and> timestamped_name (clock 2024 3) \<notin> dirs world_prior_jan
   \<and> main site_2023 (clock 2023 1) (clock 2023 1) (clock 2024 3) world_prior 2023 2023
       = (Inr ''Result table saved as historic_rate_data_bd_banks_combined_2024-03-15_09-05-07_GMT.parquet'',
          world_prior_jan\<lparr>files := (files world_prior_jan)
            (''historic_rate_data_bd_banks_combined_2024-03-15_09-05-07_GMT.parquet'' \<mapsto> table_jan)\<rparr>)
   \<and> files world_prior file_name_combined = Some [demo_row]"
proof -
  have e: "ensure_data_folder world_prior = world_prior"
    by (simp add: ensure_data_folder_def os_path_exists_def world_prior_def)
  have a: "get_data_for_months site_2023 (ensure_data_folder world_prior) [(1, 2023)]
       = (Inr table_jan, world_prior_jan)"
    by (simp add: e aggregate_prior_jan)
  have x: "os_path_exists world_prior_jan file_name_combined"
    by (simp add: os_path_exists_def world_prior_jan_def file_name_combined_def cache_paths_2023)
  have d: "timestamped_name (clock 2024 3) \<notin> dirs world_prior_jan"
    by (simp add: timestamped_name_2024 world_prior_jan_def DATA_FOLDER_def)
  have ne: "[(1::int, 2023::int)] \<noteq> []" by simp
  have f: "files world_prior file_name_combined = Some [demo_row]"
    by (simp add: world_prior_def)
  from a x d f plan_2023_january show ?thesis
    using combined_name_collision [OF plan_2023_january ne a x d]
    by (simp add: timestamped_name_2024)
qed

end
